theory Spec2Isabelle
  imports Main
begin

section \<open>JavaScript values and objects\<close>

text \<open>
  The plugin is JavaScript (\<^verbatim>\<open>main.js\<close>) with a TypeScript sibling (\<^verbatim>\<open>main.ts\<close>); both
  keep the settings in a plain object. A value is one of the primitives that can occur in
  a settings or snapshot record. Numbers are modelled as integers (the numbers the plugin
  itself produces come from \<^verbatim>\<open>parseInt\<close>, integer slider steps and \<^verbatim>\<open>Date.now()\<close>), with
  \<open>JNaN\<close> for the one non-number \<^verbatim>\<open>parseInt\<close> can return. An object is a finite map
  from property names to values; reading an absent property gives \<^verbatim>\<open>undefined\<close>.
\<close>

datatype jsval = JUndefined | JNull | JBool bool | JNumber int | JNaN | JString string

type_synonym jsobject = "string \<rightharpoonup> jsval"

definition getProp :: "jsobject \<Rightarrow> string \<Rightarrow> jsval" where
  "getProp obj k = (case obj k of None \<Rightarrow> JUndefined | Some v \<Rightarrow> v)"

fun truthy :: "jsval \<Rightarrow> bool" where
  "truthy JUndefined = False"
| "truthy JNull = False"
| "truthy (JBool b) = b"
| "truthy (JNumber n) = (n \<noteq> 0)"
| "truthy JNaN = False"
| "truthy (JString s) = (s \<noteq> [])"

text \<open>
  \<^verbatim>\<open>Object.assign(target, ...sources)\<close>: every source that is an object has its own
  properties copied onto the target, later sources overwriting earlier ones; a source
  that is \<^verbatim>\<open>null\<close> or \<^verbatim>\<open>undefined\<close> (here \<open>None\<close>) is skipped.
\<close>

fun Object_assign :: "jsobject \<Rightarrow> jsobject option list \<Rightarrow> jsobject" where
  "Object_assign target [] = target"
| "Object_assign target (None # sources) = Object_assign target sources"
| "Object_assign target (Some s # sources) = Object_assign (target ++ s) sources"

text \<open>
  \<^verbatim>\<open>parseInt(string)\<close> with no radix: leading white space is dropped, an optional sign is
  read, a \<^verbatim>\<open>0x\<close> prefix selects radix 16 (radix 10 otherwise), and the longest prefix of
  digits of that radix is the value; with no digit the result is \<^verbatim>\<open>NaN\<close>.
\<close>

definition isWhiteSpace :: "char \<Rightarrow> bool" where
  "isWhiteSpace c = ((of_char c :: nat) \<in> {9, 10, 11, 12, 13, 32})"

definition digitValue :: "char \<Rightarrow> nat option" where
  "digitValue c =
     (let n = (of_char c :: nat)
      in if 48 \<le> n \<and> n \<le> 57 then Some (n - 48)
         else if 97 \<le> n \<and> n \<le> 122 then Some (n - 87)
         else if 65 \<le> n \<and> n \<le> 90 then Some (n - 55)
         else None)"

fun radixDigits :: "nat \<Rightarrow> string \<Rightarrow> nat list" where
  "radixDigits R [] = []"
| "radixDigits R (c # cs) =
     (case digitValue c of
        None \<Rightarrow> []
      | Some d \<Rightarrow> if d < R then d # radixDigits R cs else [])"

definition parseInt :: "string \<Rightarrow> jsval" where
  "parseInt str =
     (let s1 = dropWhile isWhiteSpace str;
          neg = (case s1 of c # cs \<Rightarrow> c = CHR ''-'' | [] \<Rightarrow> False);
          s2 = (case s1 of
                  c # cs \<Rightarrow> if c = CHR ''-'' \<or> c = CHR ''+'' then cs else s1
                | [] \<Rightarrow> []);
          hex = (case s2 of
                   c0 # cx # cs \<Rightarrow> c0 = CHR ''0'' \<and> (cx = CHR ''x'' \<or> cx = CHR ''X'')
                 | _ \<Rightarrow> False);
          R = (if hex then 16 else 10);
          ds = radixDigits R (if hex then drop 2 s2 else s2);
          n = int (foldl (\<lambda>a d. a * R + d) 0 ds)
      in if ds = [] then JNaN else JNumber (if neg then - n else n))"

section \<open>The host: persistence, notices, console\<close>

text \<open>
  The host application supplies \<^verbatim>\<open>loadData\<close> and \<^verbatim>\<open>saveData\<close>, an opaque store that hands
  back the record last saved (\<open>None\<close> is \<^verbatim>\<open>null\<close>). Either call is asynchronous and may
  reject; \<open>faults\<close> scripts the outcome of the coming calls, one entry per call, and an
  exhausted script means success. \<open>calls\<close> records every persistence call made.

  The JavaScript variant reports to the user with \<^verbatim>\<open>new Obsidian.Notice(...)\<close>. The module
  binds only \<^verbatim>\<open>Plugin\<close>, \<^verbatim>\<open>PluginSettingTab\<close> and \<^verbatim>\<open>Setting\<close>, so \<^verbatim>\<open>Obsidian\<close> is a free
  identifier: \<open>obsidianGlobal\<close> says whether the global scope binds it. Where it does not,
  evaluating the expression raises a \<^verbatim>\<open>ReferenceError\<close>.
\<close>

datatype error = Rejected string | ReferenceError string | TypeError string

datatype hostcall = LoadData | SaveData "jsobject option"

record host =
  store :: "jsobject option"
  faults :: "error option list"
  calls :: "hostcall list"
  obsidianGlobal :: bool
  console :: "(string \<times> error) list"
  notices :: "string list"
  unhandled :: "error list"

definition loadData :: "host \<Rightarrow> (error + jsobject option) \<times> host" where
  "loadData h =
     (let h' = h\<lparr>calls := calls h @ [LoadData], faults := tl (faults h)\<rparr>
      in case faults h of
           Some e # _ \<Rightarrow> (Inl e, h')
         | _ \<Rightarrow> (Inr (store h), h'))"

definition saveData :: "jsobject option \<Rightarrow> host \<Rightarrow> (error + unit) \<times> host" where
  "saveData d h =
     (let h' = h\<lparr>calls := calls h @ [SaveData d], faults := tl (faults h)\<rparr>
      in case faults h of
           Some e # _ \<Rightarrow> (Inl e, h')
         | _ \<Rightarrow> (Inr (), h'\<lparr>store := d\<rparr>))"

definition Notice :: "string \<Rightarrow> host \<Rightarrow> (error + unit) \<times> host" where
  "Notice message h =
     (if obsidianGlobal h then (Inr (), h\<lparr>notices := notices h @ [message]\<rparr>)
      else (Inl (ReferenceError ''Obsidian is not defined''), h))"

definition console_error :: "string \<Rightarrow> error \<Rightarrow> host \<Rightarrow> host" where
  "console_error label e h = h\<lparr>console := console h @ [(label, e)]\<rparr>"

text \<open>\<^verbatim>\<open>try { body } catch (error) { handler }\<close> over a host state.\<close>

definition try_catch ::
  "(host \<Rightarrow> (error + 'a) \<times> host) \<Rightarrow> (error \<Rightarrow> host \<Rightarrow> (error + 'a) \<times> host) \<Rightarrow>
   host \<Rightarrow> (error + 'a) \<times> host" where
  "try_catch body handler h =
     (case body h of
        (Inl e, h') \<Rightarrow> handler e h'
      | (Inr r, h') \<Rightarrow> (Inr r, h'))"

section \<open>The 2D drawing context\<close>

text \<open>
  The canvas context is a host object. The model keeps the attribute values the plugin
  assigns, the commands of the current path (emptied by \<^verbatim>\<open>beginPath\<close>), and the list of
  painting calls issued so far; a \<^verbatim>\<open>stroke()\<close> is recorded with the path it traces and the
  attributes in force. How the host validates attribute values and rasterises a traced
  path is outside the model.
\<close>

datatype pathcmd = MoveTo int int | LineTo int int

record style =
  strokeStyle :: jsval
  lineWidth :: jsval
  lineCap :: string
  lineJoin :: string
  globalCompositeOperation :: string

datatype paintop =
  Stroke "pathcmd list" style
| ClearRect int int int int
| DrawImage jsval int int

record context2d =
  attrs :: style
  path :: "pathcmd list"
  painted :: "paintop list"

definition new_context :: context2d where
  "new_context =
     \<lparr>attrs = \<lparr>strokeStyle = JString ''#000000'', lineWidth = JNumber 1,
               lineCap = ''butt'', lineJoin = ''miter'',
               globalCompositeOperation = ''source-over''\<rparr>,
      path = [], painted = []\<rparr>"

definition lineTo :: "int \<Rightarrow> int \<Rightarrow> context2d \<Rightarrow> context2d" where
  "lineTo x y c = c\<lparr>path := path c @ [LineTo x y]\<rparr>"

definition moveTo :: "int \<Rightarrow> int \<Rightarrow> context2d \<Rightarrow> context2d" where
  "moveTo x y c = c\<lparr>path := path c @ [MoveTo x y]\<rparr>"

definition beginPath :: "context2d \<Rightarrow> context2d" where
  "beginPath c = c\<lparr>path := []\<rparr>"

definition stroke :: "context2d \<Rightarrow> context2d" where
  "stroke c = c\<lparr>painted := painted c @ [Stroke (path c) (attrs c)]\<rparr>"

definition clearRect :: "int \<Rightarrow> int \<Rightarrow> int \<Rightarrow> int \<Rightarrow> context2d \<Rightarrow> context2d" where
  "clearRect x y w h c = c\<lparr>painted := painted c @ [ClearRect x y w h]\<rparr>"

definition drawImage :: "jsval \<Rightarrow> int \<Rightarrow> int \<Rightarrow> context2d \<Rightarrow> context2d" where
  "drawImage img x y c = c\<lparr>painted := painted c @ [DrawImage img x y]\<rparr>"

section \<open>The plugin\<close>

definition DEFAULT_SETTINGS :: jsobject where
  "DEFAULT_SETTINGS =
     [''penColor'' \<mapsto> JString ''#000000'',
      ''penWidth'' \<mapsto> JNumber 2,
      ''eraserSize'' \<mapsto> JNumber 10,
      ''showToolbar'' \<mapsto> JBool True]"

datatype tool = Pen | Eraser | Select

text \<open>
  The fields of the plugin instance. \<open>settings\<close> is assigned by \<open>loadSettings\<close>, which
  \<^verbatim>\<open>onload\<close> awaits before it registers anything else; \<open>ctx\<close> and the canvas size are
  assigned by \<open>initializeDrawingCanvas\<close> before any listener is attached. \<open>images\<close> holds the
  sources of the \<^verbatim>\<open>Image\<close> objects created by \<open>loadDrawing\<close> whose load event is pending.
\<close>

record plugin =
  settings :: jsobject
  isDrawing :: bool
  currentTool :: tool
  ctx :: context2d
  canvasWidth :: int
  canvasHeight :: int
  images :: "jsval list"

definition new_plugin :: plugin where
  "new_plugin =
     \<lparr>settings = Map.empty, isDrawing = False, currentTool = Pen, ctx = new_context,
      canvasWidth = 0, canvasHeight = 0, images = []\<rparr>"

record mouse =
  clientX :: int
  clientY :: int

subsection \<open>Settings store\<close>

definition loadSettings :: "host \<Rightarrow> plugin \<Rightarrow> (error + plugin) \<times> host" where
  "loadSettings h p =
     (case loadData h of
        (Inl e, h') \<Rightarrow> (Inl e, h')
      | (Inr d, h') \<Rightarrow>
          (Inr (p\<lparr>settings := Object_assign Map.empty [Some DEFAULT_SETTINGS, d]\<rparr>), h'))"

definition saveSettings :: "host \<Rightarrow> plugin \<Rightarrow> (error + unit) \<times> host" where
  "saveSettings h p = saveData (Some (settings p)) h"

subsection \<open>Stroke rendering\<close>

definition draw :: "mouse \<Rightarrow> plugin \<Rightarrow> plugin" where
  "draw e p =
     (if \<not> isDrawing p then p
      else
        let c0 = ctx p;
            c1 = c0\<lparr>attrs := (attrs c0)\<lparr>strokeStyle := getProp (settings p) ''penColor''\<rparr>\<rparr>;
            c2 = c1\<lparr>attrs := (attrs c1)\<lparr>lineWidth := getProp (settings p) ''penWidth''\<rparr>\<rparr>;
            c3 = c2\<lparr>attrs := (attrs c2)\<lparr>lineCap := ''round''\<rparr>\<rparr>;
            c4 = c3\<lparr>attrs := (attrs c3)\<lparr>lineJoin := ''round''\<rparr>\<rparr>;
            c5 = lineTo (clientX e) (clientY e) c4;
            c6 = stroke c5;
            c7 = beginPath c6;
            c8 = moveTo (clientX e) (clientY e) c7
        in p\<lparr>ctx := c8\<rparr>)"

definition startDrawing :: "mouse \<Rightarrow> plugin \<Rightarrow> plugin" where
  "startDrawing e p = draw e (p\<lparr>isDrawing := True\<rparr>)"

definition stopDrawing :: "plugin \<Rightarrow> plugin" where
  "stopDrawing p = p\<lparr>isDrawing := False, ctx := beginPath (ctx p)\<rparr>"

subsection \<open>Toolbar handlers (\<^verbatim>\<open>createToolbar\<close>)\<close>

definition penButton_onClick :: "plugin \<Rightarrow> plugin" where
  "penButton_onClick p =
     (let p1 = p\<lparr>currentTool := Pen\<rparr>; c = ctx p1
      in p1\<lparr>ctx := c\<lparr>attrs := (attrs c)\<lparr>globalCompositeOperation := ''source-over''\<rparr>\<rparr>\<rparr>)"

definition eraserButton_onClick :: "plugin \<Rightarrow> plugin" where
  "eraserButton_onClick p =
     (let p1 = p\<lparr>currentTool := Eraser\<rparr>; c = ctx p1
      in p1\<lparr>ctx := c\<lparr>attrs := (attrs c)\<lparr>globalCompositeOperation := ''destination-out''\<rparr>\<rparr>\<rparr>)"

definition colorPicker_onChange :: "string \<Rightarrow> plugin \<Rightarrow> plugin" where
  "colorPicker_onChange v p = p\<lparr>settings := (settings p)(''penColor'' \<mapsto> JString v)\<rparr>"

definition penWidthSlider_onInput :: "string \<Rightarrow> plugin \<Rightarrow> plugin" where
  "penWidthSlider_onInput v p = p\<lparr>settings := (settings p)(''penWidth'' \<mapsto> parseInt v)\<rparr>"

text \<open>
  \<^verbatim>\<open>createToolbar\<close> itself only builds DOM elements and registers the handlers above; the
  one way it can fail is \<^verbatim>\<open>this.settings.penWidth.toString()\<close> on a width that is
  \<^verbatim>\<open>undefined\<close> or \<^verbatim>\<open>null\<close>.
\<close>

definition createToolbar :: "plugin \<Rightarrow> error + unit" where
  "createToolbar p =
     (if getProp (settings p) ''penWidth'' \<in> {JUndefined, JNull}
      then Inl (TypeError ''Cannot read properties (reading toString)'')
      else Inr ())"

subsection \<open>Snapshot persistence (JavaScript variant)\<close>

text \<open>
  \<open>toDataURL\<close> is the host's image encoder, a function of the canvas size and of what has
  been painted; \<open>now\<close> is the value of \<^verbatim>\<open>Date.now()\<close>.
\<close>

definition saveDrawing ::
  "(int \<Rightarrow> int \<Rightarrow> paintop list \<Rightarrow> string) \<Rightarrow> int \<Rightarrow> host \<Rightarrow> plugin \<Rightarrow> (error + unit) \<times> host" where
  "saveDrawing toDataURL now h p =
     try_catch
       (\<lambda>h0.
          let imageData = toDataURL (canvasWidth p) (canvasHeight p) (painted (ctx p))
          in case saveData (Some [''drawing'' \<mapsto> JString imageData,
                                  ''timestamp'' \<mapsto> JNumber now]) h0 of
               (Inl e, h1) \<Rightarrow> (Inl e, h1)
             | (Inr _, h1) \<Rightarrow> Notice ''Drawing saved successfully!'' h1)
       (\<lambda>e h1. Notice ''Failed to save drawing''
                  (console_error ''Failed to save drawing:'' e h1))
       h"

definition loadDrawing :: "host \<Rightarrow> plugin \<Rightarrow> (error + plugin) \<times> host" where
  "loadDrawing h p =
     try_catch
       (\<lambda>h0.
          case loadData h0 of
            (Inl e, h1) \<Rightarrow> (Inl e, h1)
          | (Inr savedData, h1) \<Rightarrow>
              (case savedData of
                 None \<Rightarrow> (Inr p, h1)
               | Some obj \<Rightarrow>
                   if truthy (getProp obj ''drawing'')
                   then (Inr (p\<lparr>images := images p @ [getProp obj ''drawing'']\<rparr>), h1)
                   else (Inr p, h1)))
       (\<lambda>e h1. (Inr p, console_error ''Failed to load drawing:'' e h1))
       h"

text \<open>The \<^verbatim>\<open>img.onload\<close> callback, run when the oldest pending image has loaded.\<close>

definition img_onload :: "plugin \<Rightarrow> plugin" where
  "img_onload p =
     (case images p of
        [] \<Rightarrow> p
      | img # rest \<Rightarrow>
          p\<lparr>images := rest,
            ctx := drawImage img 0 0
                     (clearRect 0 0 (canvasWidth p) (canvasHeight p) (ctx p))\<rparr>)"

text \<open>
  Activation: a fresh canvas of the window's size and its context, then the saved drawing,
  then the toolbar. Mounting the elements in the document is not modelled.
\<close>

definition initializeDrawingCanvas ::
  "int \<Rightarrow> int \<Rightarrow> host \<Rightarrow> plugin \<Rightarrow> (error + plugin) \<times> host" where
  "initializeDrawingCanvas innerWidth innerHeight h p =
     (let p1 = p\<lparr>canvasWidth := innerWidth, canvasHeight := innerHeight, ctx := new_context\<rparr>
      in case loadDrawing h p1 of
           (Inl e, h1) \<Rightarrow> (Inl e, h1)
         | (Inr p2, h1) \<Rightarrow>
             (case createToolbar p2 of
                Inl e \<Rightarrow> (Inl e, h1)
              | Inr _ \<Rightarrow> (Inr p2, h1)))"

text \<open>The settings tab's button \<^verbatim>\<open>Clear Drawing\<close>.\<close>

definition clearDrawing_onClick :: "host \<Rightarrow> (error + unit) \<times> host" where
  "clearDrawing_onClick h =
     (case saveData None h of
        (Inl e, h1) \<Rightarrow> (Inl e, h1)
      | (Inr _, h1) \<Rightarrow> Notice ''Saved drawing has been cleared'' h1)"

subsection \<open>Settings tab (TypeScript variant)\<close>

text \<open>
  The controls of the settings tab assign one field and then await \<open>saveSettings\<close>;
  the result is the outcome of that call, the host after it, and the plugin.
\<close>

definition settingTab_penColor_onChange ::
  "jsval \<Rightarrow> host \<Rightarrow> plugin \<Rightarrow> ((error + unit) \<times> host) \<times> plugin" where
  "settingTab_penColor_onChange v h p =
     (let p1 = p\<lparr>settings := (settings p)(''penColor'' \<mapsto> v)\<rparr>
      in (saveSettings h p1, p1))"

definition settingTab_penWidth_onChange ::
  "jsval \<Rightarrow> host \<Rightarrow> plugin \<Rightarrow> ((error + unit) \<times> host) \<times> plugin" where
  "settingTab_penWidth_onChange v h p =
     (let p1 = p\<lparr>settings := (settings p)(''penWidth'' \<mapsto> v)\<rparr>
      in (saveSettings h p1, p1))"

definition settingTab_showToolbar_onChange ::
  "jsval \<Rightarrow> host \<Rightarrow> plugin \<Rightarrow> ((error + unit) \<times> host) \<times> plugin" where
  "settingTab_showToolbar_onChange v h p =
     (let p1 = p\<lparr>settings := (settings p)(''showToolbar'' \<mapsto> v)\<rparr>
      in (saveSettings h p1, p1))"

subsection \<open>Event wiring\<close>

text \<open>
  The listeners registered by \<open>initializeDrawingCanvas\<close> and \<^verbatim>\<open>createToolbar\<close>, as one
  dispatcher over the host and the plugin. A rejected promise of an asynchronous
  listener has no handler and is recorded in \<open>unhandled\<close>.
\<close>

datatype event =
  Mousedown mouse
| Mousemove mouse
| Mouseup
| Mouseout
| PenButtonClick
| EraserButtonClick
| ColorPickerChange string
| PenWidthSliderInput string
| SaveButtonClick int
| ImageLoad

definition settle :: "(error + unit) \<times> host \<Rightarrow> host" where
  "settle r =
     (case r of
        (Inl e, h) \<Rightarrow> h\<lparr>unhandled := unhandled h @ [e]\<rparr>
      | (Inr _, h) \<Rightarrow> h)"

fun dispatch ::
  "(int \<Rightarrow> int \<Rightarrow> paintop list \<Rightarrow> string) \<Rightarrow> event \<Rightarrow> host \<times> plugin \<Rightarrow> host \<times> plugin" where
  "dispatch toDataURL (Mousedown e) (h, p) = (h, startDrawing e p)"
| "dispatch toDataURL (Mousemove e) (h, p) = (h, draw e p)"
| "dispatch toDataURL Mouseup (h, p) = (h, stopDrawing p)"
| "dispatch toDataURL Mouseout (h, p) = (h, stopDrawing p)"
| "dispatch toDataURL PenButtonClick (h, p) = (h, penButton_onClick p)"
| "dispatch toDataURL EraserButtonClick (h, p) = (h, eraserButton_onClick p)"
| "dispatch toDataURL (ColorPickerChange v) (h, p) = (h, colorPicker_onChange v p)"
| "dispatch toDataURL (PenWidthSliderInput v) (h, p) = (h, penWidthSlider_onInput v p)"
| "dispatch toDataURL (SaveButtonClick now) (h, p) = (settle (saveDrawing toDataURL now h p), p)"
| "dispatch toDataURL ImageLoad (h, p) = (h, img_onload p)"

text \<open>\<open>resolving n h\<close>: the coming \<open>n\<close> persistence calls of the host resolve.\<close>

definition resolving :: "nat \<Rightarrow> host \<Rightarrow> bool" where
  "resolving n h = list_all (\<lambda>f. f = None) (take n (faults h))"

subsection \<open>Example states\<close>

text \<open>Concrete states on which the theorems below are instantiated.\<close>

definition example_host :: host where
  "example_host =
     \<lparr>store = None, faults = [], calls = [], obsidianGlobal = True,
      console = [], notices = [], unhandled = []\<rparr>"

definition example_plugin :: plugin where
  "example_plugin =
     new_plugin\<lparr>settings :=
       [''penColor'' \<mapsto> JString ''#ff0000'', ''penWidth'' \<mapsto> JNumber 7,
        ''eraserSize'' \<mapsto> JNumber 10, ''showToolbar'' \<mapsto> JBool False]\<rparr>"

definition stored_settings_host :: host where
  "stored_settings_host = example_host\<lparr>store := Some (settings example_plugin)\<rparr>"

definition example_toDataURL :: "int \<Rightarrow> int \<Rightarrow> paintop list \<Rightarrow> string" where
  "example_toDataURL w h ops = ''data:image/png;base64,'' @ replicate (length ops) CHR ''A''"

definition stored_width_host :: host where
  "stored_width_host = example_host\<lparr>store := Some [''penWidth'' \<mapsto> JNumber 5]\<rparr>"

definition stored_drawing_host :: host where
  "stored_drawing_host =
     example_host\<lparr>store := Some [''drawing'' \<mapsto> JString ''data:image/png;base64,AAA'',
                                  ''timestamp'' \<mapsto> JNumber 1000]\<rparr>"

definition failing_unbound_host :: host where
  "failing_unbound_host =
     example_host\<lparr>obsidianGlobal := False, faults := [Some (Rejected ''write failed'')]\<rparr>"

section \<open>Host calls that resolve\<close>

lemma loadData_resolving:
  "resolving (Suc n) h \<Longrightarrow>
   loadData h = (Inr (store h), h\<lparr>calls := calls h @ [LoadData], faults := tl (faults h)\<rparr>)"
  by (cases "faults h") (auto simp: loadData_def resolving_def)

lemma saveData_resolving:
  "resolving (Suc n) h \<Longrightarrow>
   saveData d h =
     (Inr (), h\<lparr>calls := calls h @ [SaveData d], faults := tl (faults h), store := d\<rparr>)"
  by (cases "faults h") (auto simp: saveData_def resolving_def)

lemma resolving_tl: "resolving (Suc n) h \<Longrightarrow> resolving n (h\<lparr>faults := tl (faults h)\<rparr>)"
  by (cases "faults h") (auto simp: resolving_def)

lemma Object_assign_defaults:
  "Object_assign Map.empty [Some DEFAULT_SETTINGS, d] =
     (case d of None \<Rightarrow> DEFAULT_SETTINGS | Some s \<Rightarrow> DEFAULT_SETTINGS ++ s)"
  by (cases d) simp_all

lemma loadSettings_resolving:
  "resolving (Suc n) h \<Longrightarrow>
   loadSettings h p =
     (Inr (p\<lparr>settings := (case store h of None \<Rightarrow> DEFAULT_SETTINGS
                                | Some s \<Rightarrow> DEFAULT_SETTINGS ++ s)\<rparr>),
      h\<lparr>calls := calls h @ [LoadData], faults := tl (faults h)\<rparr>)"
  by (simp add: loadSettings_def loadData_resolving Object_assign_defaults del: Object_assign.simps)

text \<open>
  Claim C1. When \<^verbatim>\<open>loadData\<close> resolves with a record whose keys are among the keys of the
  defaults, \<open>loadSettings\<close> leaves a settings object with exactly the keys of the
  defaults, each key of the record holding the record's value and every other key the
  default; when it resolves with \<^verbatim>\<open>null\<close>, the settings are the defaults.
\<close>

theorem loadSettings_merge:
  assumes "resolving 1 h"
  shows "(store h = Some partial \<and> dom partial \<subseteq> dom DEFAULT_SETTINGS \<longrightarrow>
            (\<exists>q h'. loadSettings h p = (Inr q, h') \<and>
               dom (settings q) = dom DEFAULT_SETTINGS \<and>
               (\<forall>k. settings q k = (if k \<in> dom partial then partial k else DEFAULT_SETTINGS k))))
       \<and> (store h = None \<longrightarrow>
            (\<exists>q h'. loadSettings h p = (Inr q, h') \<and> settings q = DEFAULT_SETTINGS))"
proof (intro conjI impI)
  assume a: "store h = Some partial \<and> dom partial \<subseteq> dom DEFAULT_SETTINGS"
  from assms have "resolving (Suc 0) h" by simp
  from loadSettings_resolving [OF this, of p] a
  have eq: "loadSettings h p =
      (Inr (p\<lparr>settings := DEFAULT_SETTINGS ++ partial\<rparr>),
       h\<lparr>calls := calls h @ [LoadData], faults := tl (faults h)\<rparr>)"
    by simp
  have d: "dom (DEFAULT_SETTINGS ++ partial) = dom DEFAULT_SETTINGS"
    using a by auto
  have v: "\<forall>k. (DEFAULT_SETTINGS ++ partial) k =
               (if k \<in> dom partial then partial k else DEFAULT_SETTINGS k)"
    by (auto simp: map_add_def split: option.splits)
  show "\<exists>q h'. loadSettings h p = (Inr q, h') \<and>
               dom (settings q) = dom DEFAULT_SETTINGS \<and>
               (\<forall>k. settings q k = (if k \<in> dom partial then partial k else DEFAULT_SETTINGS k))"
    using eq d v by simp
next
  assume a: "store h = None"
  from assms have "resolving (Suc 0) h" by simp
  from loadSettings_resolving [OF this, of p] a
  show "\<exists>q h'. loadSettings h p = (Inr q, h') \<and> settings q = DEFAULT_SETTINGS"
    by simp
qed

theorem loadSettings_merge_witness:
  "resolving 1 stored_width_host \<and> resolving 1 example_host \<and>
   store stored_width_host = Some [''penWidth'' \<mapsto> JNumber 5] \<and>
   dom [''penWidth'' \<mapsto> JNumber 5] \<subseteq> dom DEFAULT_SETTINGS \<and>
   store example_host = None \<and>
   (\<exists>q h'. loadSettings stored_width_host new_plugin = (Inr q, h') \<and>
       settings q ''penWidth'' = Some (JNumber 5) \<and>
       settings q ''penColor'' = Some (JString ''#000000'') \<and>
       settings q ''eraserSize'' = Some (JNumber 10) \<and>
       settings q ''showToolbar'' = Some (JBool True)) \<and>
   (\<exists>q h'. loadSettings example_host new_plugin = (Inr q, h') \<and>
       settings q = DEFAULT_SETTINGS)"
proof -
  have r: "resolving 1 stored_width_host" "resolving 1 example_host"
    by (simp_all add: resolving_def stored_width_host_def example_host_def)
  have s: "store stored_width_host = Some [''penWidth'' \<mapsto> JNumber 5]"
    by (simp add: stored_width_host_def)
  have d: "dom [''penWidth'' \<mapsto> JNumber 5] \<subseteq> dom DEFAULT_SETTINGS"
    by (simp add: DEFAULT_SETTINGS_def)
  have n: "store example_host = None"
    by (simp add: example_host_def)
  from loadSettings_merge [OF r(1), of "[''penWidth'' \<mapsto> JNumber 5]" new_plugin] s d
  obtain q h' where q: "loadSettings stored_width_host new_plugin = (Inr q, h')"
    and v: "\<forall>k. settings q k = (if k \<in> dom [''penWidth'' \<mapsto> JNumber 5]
                 then [''penWidth'' \<mapsto> JNumber 5] k else DEFAULT_SETTINGS k)"
    by auto
  have "settings q ''penWidth'' = Some (JNumber 5)"
       "settings q ''penColor'' = Some (JString ''#000000'')"
       "settings q ''eraserSize'' = Some (JNumber 10)"
       "settings q ''showToolbar'' = Some (JBool True)"
    using v by (simp_all add: DEFAULT_SETTINGS_def)
  with q have one: "\<exists>q h'. loadSettings stored_width_host new_plugin = (Inr q, h') \<and>
       settings q ''penWidth'' = Some (JNumber 5) \<and>
       settings q ''penColor'' = Some (JString ''#000000'') \<and>
       settings q ''eraserSize'' = Some (JNumber 10) \<and>
       settings q ''showToolbar'' = Some (JBool True)"
    by (intro exI conjI)
  from loadSettings_merge [OF r(2), of "[''penWidth'' \<mapsto> JNumber 5]" new_plugin] n
  have two: "\<exists>q h'. loadSettings example_host new_plugin = (Inr q, h') \<and>
       settings q = DEFAULT_SETTINGS"
    by blast
  from r s d n one two show ?thesis by (intro conjI)
qed

lemma saveDrawing_calls:
  "calls (snd (saveDrawing toDataURL now h p)) =
     calls h @ [SaveData (Some [''drawing'' \<mapsto>
                    JString (toDataURL (canvasWidth p) (canvasHeight p) (painted (ctx p))),
                    ''timestamp'' \<mapsto> JNumber now])]"
  by (cases "faults h")
     (auto simp: saveDrawing_def try_catch_def saveData_def Notice_def console_error_def Let_def
           split: option.splits)

lemma saveDrawing_store:
  "store (snd (saveDrawing toDataURL now h p)) =
     (if resolving 1 h
      then Some [''drawing'' \<mapsto>
                    JString (toDataURL (canvasWidth p) (canvasHeight p) (painted (ctx p))),
                 ''timestamp'' \<mapsto> JNumber now]
      else store h)"
  by (cases "faults h")
     (auto simp: saveDrawing_def try_catch_def saveData_def Notice_def console_error_def Let_def
                 resolving_def
           split: option.splits)

lemma saveDrawing_faults:
  "faults (snd (saveDrawing toDataURL now h p)) = tl (faults h)"
  by (cases "faults h")
     (auto simp: saveDrawing_def try_catch_def saveData_def Notice_def console_error_def Let_def
           split: option.splits)

lemma resolving_2: "resolving 2 h \<Longrightarrow> resolving 1 h \<and> resolving 1 (h'\<lparr>faults := tl (faults h)\<rparr>)"
  by (cases "faults h") (auto simp: resolving_def numeral_2_eq_2)

section \<open>Settings round trip\<close>

text \<open>
  Claim C2. For settings that hold all four fields, \<open>saveSettings\<close> followed by
  \<open>loadSettings\<close> on another instance over the same storage (both host calls resolving)
  yields the same settings object, hence every field of the original. The instance that
  loads is arbitrary, a fresh one included.
\<close>

theorem settings_round_trip:
  assumes "dom DEFAULT_SETTINGS \<subseteq> dom (settings p)" and "resolving 2 h"
  shows "\<exists>h1 h2 q. saveSettings h p = (Inr (), h1) \<and> store h1 = Some (settings p) \<and>
            loadSettings h1 fresh = (Inr q, h2) \<and> settings q = settings p"
proof -
  from assms(2) have r1: "resolving (Suc 1) h" by (simp add: numeral_2_eq_2)
  let ?h1 = "h\<lparr>calls := calls h @ [SaveData (Some (settings p))],
                 faults := tl (faults h), store := Some (settings p)\<rparr>"
  have s: "saveSettings h p = (Inr (), ?h1)"
    by (simp add: saveSettings_def saveData_resolving [OF r1])
  have "resolving 1 (h\<lparr>faults := tl (faults h)\<rparr>)"
    using resolving_tl [OF r1] .
  then have r2: "resolving (Suc 0) ?h1" by (simp add: resolving_def)
  have m: "DEFAULT_SETTINGS ++ settings p = settings p"
  proof
    fix k show "(DEFAULT_SETTINGS ++ settings p) k = settings p k"
      using assms(1) by (cases "settings p k") (auto simp: map_add_def)
  qed
  have l: "loadSettings ?h1 fresh =
      (Inr (fresh\<lparr>settings := settings p\<rparr>),
       ?h1\<lparr>calls := calls ?h1 @ [LoadData], faults := tl (faults ?h1)\<rparr>)"
    using loadSettings_resolving [OF r2, of fresh] m by simp
  from s l show ?thesis by simp
qed

theorem settings_round_trip_witness:
  "dom DEFAULT_SETTINGS \<subseteq> dom (settings example_plugin) \<and> resolving 2 example_host \<and>
   (\<exists>h1 h2 q. saveSettings example_host example_plugin = (Inr (), h1) \<and>
      loadSettings h1 new_plugin = (Inr q, h2) \<and>
      settings q ''penColor'' = Some (JString ''#ff0000'') \<and>
      settings q ''penWidth'' = Some (JNumber 7) \<and>
      settings q ''eraserSize'' = Some (JNumber 10) \<and>
      settings q ''showToolbar'' = Some (JBool False))"
proof -
  have a: "dom DEFAULT_SETTINGS \<subseteq> dom (settings example_plugin)"
    by (simp add: DEFAULT_SETTINGS_def example_plugin_def)
  have b: "resolving 2 example_host"
    by (simp add: resolving_def example_host_def)
  from settings_round_trip [OF a b, of new_plugin]
  obtain h1 h2 q where "saveSettings example_host example_plugin = (Inr (), h1)"
      "loadSettings h1 new_plugin = (Inr q, h2)" "settings q = settings example_plugin"
    by blast
  moreover from this(3) have
      "settings q ''penColor'' = Some (JString ''#ff0000'')"
      "settings q ''penWidth'' = Some (JNumber 7)"
      "settings q ''eraserSize'' = Some (JNumber 10)"
      "settings q ''showToolbar'' = Some (JBool False)"
    by (simp_all add: example_plugin_def)
  ultimately show ?thesis using a b by blast
qed

section \<open>Saving a drawing\<close>

text \<open>
  Claim C5. Two calls of \<open>saveDrawing\<close> in succession on the same canvas hand the host two
  records with the same \<^verbatim>\<open>drawing\<close> payload, whatever the outcome of either call and
  whatever the two clock readings; when both calls resolve, each record is what the
  store holds after its call.
\<close>

theorem saveDrawing_twice_same_payload:
  "calls (snd (saveDrawing toDataURL t2 (snd (saveDrawing toDataURL t1 h p)) p)) =
     calls h @
       [SaveData (Some [''drawing'' \<mapsto>
                    JString (toDataURL (canvasWidth p) (canvasHeight p) (painted (ctx p))),
                  ''timestamp'' \<mapsto> JNumber t1]),
        SaveData (Some [''drawing'' \<mapsto>
                    JString (toDataURL (canvasWidth p) (canvasHeight p) (painted (ctx p))),
                  ''timestamp'' \<mapsto> JNumber t2])]
   \<and> (resolving 2 h \<longrightarrow>
        store (snd (saveDrawing toDataURL t1 h p)) =
          Some [''drawing'' \<mapsto>
                  JString (toDataURL (canvasWidth p) (canvasHeight p) (painted (ctx p))),
                ''timestamp'' \<mapsto> JNumber t1] \<and>
        store (snd (saveDrawing toDataURL t2 (snd (saveDrawing toDataURL t1 h p)) p)) =
          Some [''drawing'' \<mapsto>
                  JString (toDataURL (canvasWidth p) (canvasHeight p) (painted (ctx p))),
                ''timestamp'' \<mapsto> JNumber t2])"
proof (intro conjI impI)
  show "calls (snd (saveDrawing toDataURL t2 (snd (saveDrawing toDataURL t1 h p)) p)) =
     calls h @
       [SaveData (Some [''drawing'' \<mapsto>
                    JString (toDataURL (canvasWidth p) (canvasHeight p) (painted (ctx p))),
                  ''timestamp'' \<mapsto> JNumber t1]),
        SaveData (Some [''drawing'' \<mapsto>
                    JString (toDataURL (canvasWidth p) (canvasHeight p) (painted (ctx p))),
                  ''timestamp'' \<mapsto> JNumber t2])]"
    by (simp only: saveDrawing_calls append_assoc append_Cons append_Nil)
next
  assume r: "resolving 2 h"
  then have r1: "resolving 1 h" using resolving_2 by blast
  show "store (snd (saveDrawing toDataURL t1 h p)) =
          Some [''drawing'' \<mapsto>
                  JString (toDataURL (canvasWidth p) (canvasHeight p) (painted (ctx p))),
                ''timestamp'' \<mapsto> JNumber t1]"
    using r1 by (simp only: saveDrawing_store if_True)
  have "resolving 1 (snd (saveDrawing toDataURL t1 h p))"
    using r by (cases "faults h") (auto simp: resolving_def saveDrawing_faults numeral_2_eq_2)
  then show "store (snd (saveDrawing toDataURL t2 (snd (saveDrawing toDataURL t1 h p)) p)) =
          Some [''drawing'' \<mapsto>
                  JString (toDataURL (canvasWidth p) (canvasHeight p) (painted (ctx p))),
                ''timestamp'' \<mapsto> JNumber t2]"
    by (simp only: saveDrawing_store if_True)
qed

theorem saveDrawing_twice_same_payload_witness:
  "resolving 2 example_host \<and>
   (case store (snd (saveDrawing example_toDataURL 1000 example_host example_plugin)) of
      None \<Rightarrow> False
    | Some r \<Rightarrow> r ''drawing'' = Some (JString ''data:image/png;base64,'') \<and>
                 r ''timestamp'' = Some (JNumber 1000)) \<and>
   (case store (snd (saveDrawing example_toDataURL 2000
            (snd (saveDrawing example_toDataURL 1000 example_host example_plugin))
            example_plugin)) of
      None \<Rightarrow> False
    | Some r \<Rightarrow> r ''drawing'' = Some (JString ''data:image/png;base64,'') \<and>
                 r ''timestamp'' = Some (JNumber 2000))"
proof -
  have b: "resolving 2 example_host"
    by (simp add: resolving_def example_host_def)
  have e: "example_toDataURL (canvasWidth example_plugin) (canvasHeight example_plugin)
             (painted (ctx example_plugin)) = ''data:image/png;base64,''"
    by (simp add: example_toDataURL_def example_plugin_def new_plugin_def new_context_def)
  from saveDrawing_twice_same_payload [of example_toDataURL 2000 1000 example_host example_plugin] b
  show ?thesis by (simp add: e)
qed

text \<open>
  Claim C10. \<open>saveDrawing\<close> replaces whatever the store held by a record whose keys are
  exactly \<^verbatim>\<open>drawing\<close> and \<^verbatim>\<open>timestamp\<close>; a \<open>loadSettings\<close> after it (both host calls
  resolving) therefore finds no settings key and gives every settings field its default.
\<close>

theorem saveDrawing_discards_settings:
  assumes "resolving 2 h"
  shows "store (snd (saveDrawing toDataURL now h p)) =
           Some [''drawing'' \<mapsto>
                   JString (toDataURL (canvasWidth p) (canvasHeight p) (painted (ctx p))),
                 ''timestamp'' \<mapsto> JNumber now]
         \<and> dom [''drawing'' \<mapsto>
                   JString (toDataURL (canvasWidth p) (canvasHeight p) (painted (ctx p))),
                 ''timestamp'' \<mapsto> JNumber now] = {''drawing'', ''timestamp''}
         \<and> (\<exists>q h2.
               loadSettings (snd (saveDrawing toDataURL now h p)) fresh = (Inr q, h2) \<and>
               settings q ''penColor'' = Some (JString ''#000000'') \<and>
               settings q ''penWidth'' = Some (JNumber 2) \<and>
               settings q ''eraserSize'' = Some (JNumber 10) \<and>
               settings q ''showToolbar'' = Some (JBool True))"
proof -
  let ?snap = "[''drawing'' \<mapsto>
                  JString (toDataURL (canvasWidth p) (canvasHeight p) (painted (ctx p))),
               ''timestamp'' \<mapsto> JNumber now]"
  let ?h1 = "snd (saveDrawing toDataURL now h p)"
  let ?q = "fresh\<lparr>settings := DEFAULT_SETTINGS ++ ?snap\<rparr>"
  let ?h2 = "?h1\<lparr>calls := calls ?h1 @ [LoadData], faults := tl (faults ?h1)\<rparr>"
  from assms have r1: "resolving 1 h" using resolving_2 by blast
  have st: "store ?h1 = Some ?snap"
    using r1 by (simp only: saveDrawing_store if_True)
  have "resolving 1 ?h1"
    using assms by (cases "faults h") (auto simp: resolving_def saveDrawing_faults numeral_2_eq_2)
  then have r2: "resolving (Suc 0) ?h1" by simp
  have l: "loadSettings ?h1 fresh = (Inr ?q, ?h2)"
    using loadSettings_resolving [OF r2, of fresh] st by simp
  have d: "dom ?snap = {''drawing'', ''timestamp''}" by auto
  have v: "settings ?q ''penColor'' = Some (JString ''#000000'')"
          "settings ?q ''penWidth'' = Some (JNumber 2)"
          "settings ?q ''eraserSize'' = Some (JNumber 10)"
          "settings ?q ''showToolbar'' = Some (JBool True)"
    by (simp_all add: DEFAULT_SETTINGS_def map_add_def)
  have "\<exists>q h2.
          loadSettings ?h1 fresh = (Inr q, h2) \<and>
          settings q ''penColor'' = Some (JString ''#000000'') \<and>
          settings q ''penWidth'' = Some (JNumber 2) \<and>
          settings q ''eraserSize'' = Some (JNumber 10) \<and>
          settings q ''showToolbar'' = Some (JBool True)"
    apply (rule exI [of _ ?q])
    apply (rule exI [of _ ?h2])
    apply (intro conjI)
        apply (rule l)
       apply (rule v(1))
      apply (rule v(2))
     apply (rule v(3))
    apply (rule v(4))
    done
  with st d show ?thesis by (intro conjI)
qed

theorem saveDrawing_discards_settings_witness:
  "resolving 2 stored_settings_host \<and>
   (case store stored_settings_host of None \<Rightarrow> False
    | Some s \<Rightarrow> s ''penColor'' = Some (JString ''#ff0000'')) \<and>
   (\<exists>q h2.
      loadSettings (snd (saveDrawing example_toDataURL 1000 stored_settings_host example_plugin))
        new_plugin = (Inr q, h2) \<and>
      settings q ''penColor'' = Some (JString ''#000000''))"
proof -
  have b: "resolving 2 stored_settings_host"
    by (simp add: resolving_def stored_settings_host_def example_host_def)
  have c: "(case store stored_settings_host of None \<Rightarrow> False
    | Some s \<Rightarrow> s ''penColor'' = Some (JString ''#ff0000''))"
    by (simp add: stored_settings_host_def example_plugin_def)
  from saveDrawing_discards_settings [OF b, of example_toDataURL 1000 example_plugin new_plugin]
  obtain q h2 where
      "loadSettings (snd (saveDrawing example_toDataURL 1000 stored_settings_host example_plugin))
        new_plugin = (Inr q, h2)"
      "settings q ''penColor'' = Some (JString ''#000000'')"
    by (elim conjE exE)
  then have "\<exists>q h2.
      loadSettings (snd (saveDrawing example_toDataURL 1000 stored_settings_host example_plugin))
        new_plugin = (Inr q, h2) \<and>
      settings q ''penColor'' = Some (JString ''#000000'')"
    by (intro exI conjI)
  with b c show ?thesis by (intro conjI)
qed

section \<open>Stroke rendering\<close>

lemma draw_active:
  "isDrawing p \<Longrightarrow>
   draw e p =
     p\<lparr>ctx := \<lparr>attrs = (attrs (ctx p))\<lparr>strokeStyle := getProp (settings p) ''penColor'',
                                            lineWidth := getProp (settings p) ''penWidth'',
                                            lineCap := ''round'', lineJoin := ''round''\<rparr>,
                  path = [MoveTo (clientX e) (clientY e)],
                  painted = painted (ctx p) @
                    [Stroke (path (ctx p) @ [LineTo (clientX e) (clientY e)])
                       ((attrs (ctx p))\<lparr>strokeStyle := getProp (settings p) ''penColor'',
                                         lineWidth := getProp (settings p) ''penWidth'',
                                         lineCap := ''round'', lineJoin := ''round''\<rparr>)]\<rparr>\<rparr>"
  by (simp add: draw_def lineTo_def stroke_def beginPath_def moveTo_def Let_def)

lemma draw_idle: "\<not> isDrawing p \<Longrightarrow> draw e p = p"
  by (simp add: draw_def)

text \<open>
  Claim C3. From an overlay whose current path is empty, a pointer-down at (10,10)
  followed by a pointer-up adds exactly one painting call to the canvas: a stroke that
  traces the path made of the single point (10,10), with the stroke colour and width of
  the live settings and round caps and joins; afterwards \<open>isDrawing\<close> is false and the path
  is empty again.
\<close>

theorem click_leaves_dot:
  assumes "path (ctx p) = []"
  shows "painted (ctx (stopDrawing (startDrawing \<lparr>clientX = 10, clientY = 10\<rparr> p))) =
           painted (ctx p) @
             [Stroke [LineTo 10 10]
                \<lparr>strokeStyle = getProp (settings p) ''penColor'',
                 lineWidth = getProp (settings p) ''penWidth'',
                 lineCap = ''round'', lineJoin = ''round'',
                 globalCompositeOperation = globalCompositeOperation (attrs (ctx p))\<rparr>]
         \<and> \<not> isDrawing (stopDrawing (startDrawing \<lparr>clientX = 10, clientY = 10\<rparr> p))
         \<and> path (ctx (stopDrawing (startDrawing \<lparr>clientX = 10, clientY = 10\<rparr> p))) = []"
  using assms
  by (simp add: stopDrawing_def startDrawing_def draw_active beginPath_def)

theorem click_leaves_dot_witness:
  "path (ctx example_plugin) = [] \<and>
   painted (ctx (stopDrawing (startDrawing \<lparr>clientX = 10, clientY = 10\<rparr> example_plugin))) =
     [Stroke [LineTo 10 10]
        \<lparr>strokeStyle = JString ''#ff0000'', lineWidth = JNumber 7,
         lineCap = ''round'', lineJoin = ''round'',
         globalCompositeOperation = ''source-over''\<rparr>] \<and>
   \<not> isDrawing (stopDrawing (startDrawing \<lparr>clientX = 10, clientY = 10\<rparr> example_plugin))"
proof -
  have a: "path (ctx example_plugin) = []"
    by (simp add: example_plugin_def new_plugin_def new_context_def)
  from click_leaves_dot [OF a] a show ?thesis
    by (simp add: example_plugin_def new_plugin_def new_context_def getProp_def)
qed

text \<open>
  Claim C4. A pointer-down at (0,0), a move to (50,50), a change of the colour picker, a
  move to (100,0) and a pointer-up add three strokes to the canvas, each tracing a path of
  its own: the starting point, the segment from (0,0) to (50,50), and the segment from
  (50,50) to (100,0). The first two carry the pen colour of the settings as they were,
  the third the colour picked in between; the width is the live pen width throughout.
  In general, a move while drawing whose path holds just the last recorded point strokes
  the one segment from that point to the pointer, with the colour and width the settings
  hold at that moment, and leaves the pointer's position as the only point of the path.
\<close>

theorem segments_independent:
  "(path (ctx p) = [] \<longrightarrow>
      painted (ctx (stopDrawing (draw \<lparr>clientX = 100, clientY = 0\<rparr>
                 (colorPicker_onChange newColor
                    (draw \<lparr>clientX = 50, clientY = 50\<rparr>
                       (startDrawing \<lparr>clientX = 0, clientY = 0\<rparr> p)))))) =
        painted (ctx p) @
          [Stroke [LineTo 0 0]
             \<lparr>strokeStyle = getProp (settings p) ''penColor'',
              lineWidth = getProp (settings p) ''penWidth'',
              lineCap = ''round'', lineJoin = ''round'',
              globalCompositeOperation = globalCompositeOperation (attrs (ctx p))\<rparr>,
           Stroke [MoveTo 0 0, LineTo 50 50]
             \<lparr>strokeStyle = getProp (settings p) ''penColor'',
              lineWidth = getProp (settings p) ''penWidth'',
              lineCap = ''round'', lineJoin = ''round'',
              globalCompositeOperation = globalCompositeOperation (attrs (ctx p))\<rparr>,
           Stroke [MoveTo 50 50, LineTo 100 0]
             \<lparr>strokeStyle = JString newColor,
              lineWidth = getProp (settings p) ''penWidth'',
              lineCap = ''round'', lineJoin = ''round'',
              globalCompositeOperation = globalCompositeOperation (attrs (ctx p))\<rparr>])
   \<and> (isDrawing q \<and> path (ctx q) = [MoveTo x y] \<longrightarrow>
        painted (ctx (draw e q)) =
          painted (ctx q) @
            [Stroke [MoveTo x y, LineTo (clientX e) (clientY e)]
               \<lparr>strokeStyle = getProp (settings q) ''penColor'',
                lineWidth = getProp (settings q) ''penWidth'',
                lineCap = ''round'', lineJoin = ''round'',
                globalCompositeOperation = globalCompositeOperation (attrs (ctx q))\<rparr>]
        \<and> path (ctx (draw e q)) = [MoveTo (clientX e) (clientY e)])"
proof (intro conjI impI)
  assume a: "path (ctx p) = []"
  let ?p1 = "startDrawing \<lparr>clientX = 0, clientY = 0\<rparr> p"
  let ?p2 = "draw \<lparr>clientX = 50, clientY = 50\<rparr> ?p1"
  let ?p3 = "colorPicker_onChange newColor ?p2"
  let ?p4 = "draw \<lparr>clientX = 100, clientY = 0\<rparr> ?p3"
  let ?s = "\<lparr>strokeStyle = getProp (settings p) ''penColor'',
              lineWidth = getProp (settings p) ''penWidth'',
              lineCap = ''round'', lineJoin = ''round'',
              globalCompositeOperation = globalCompositeOperation (attrs (ctx p))\<rparr>"
  have p1: "isDrawing ?p1" "settings ?p1 = settings p" "path (ctx ?p1) = [MoveTo 0 0]"
    "attrs (ctx ?p1) = ?s" "painted (ctx ?p1) = painted (ctx p) @ [Stroke [LineTo 0 0] ?s]"
    using a by (simp_all add: startDrawing_def draw_active)
  have p2: "isDrawing ?p2" "settings ?p2 = settings p" "path (ctx ?p2) = [MoveTo 50 50]"
    "attrs (ctx ?p2) = ?s"
    "painted (ctx ?p2) = painted (ctx p) @
       [Stroke [LineTo 0 0] ?s, Stroke [MoveTo 0 0, LineTo 50 50] ?s]"
    using p1 by (simp_all add: draw_active)
  have p3: "isDrawing ?p3" "getProp (settings ?p3) ''penColor'' = JString newColor"
    "getProp (settings ?p3) ''penWidth'' = getProp (settings p) ''penWidth''"
    "ctx ?p3 = ctx ?p2"
    using p2 by (simp_all add: colorPicker_onChange_def getProp_def)
  have p4: "painted (ctx ?p4) = painted (ctx ?p2) @
       [Stroke [MoveTo 50 50, LineTo 100 0] (?s\<lparr>strokeStyle := JString newColor\<rparr>)]"
    using p3 p2(3,4) by (simp add: draw_active)
  show "painted (ctx (stopDrawing ?p4)) =
        painted (ctx p) @
          [Stroke [LineTo 0 0] ?s, Stroke [MoveTo 0 0, LineTo 50 50] ?s,
           Stroke [MoveTo 50 50, LineTo 100 0]
             \<lparr>strokeStyle = JString newColor,
              lineWidth = getProp (settings p) ''penWidth'',
              lineCap = ''round'', lineJoin = ''round'',
              globalCompositeOperation = globalCompositeOperation (attrs (ctx p))\<rparr>]"
    using p4 p2(5) by (simp add: stopDrawing_def beginPath_def)
next
  assume a: "isDrawing q \<and> path (ctx q) = [MoveTo x y]"
  then show "painted (ctx (draw e q)) =
          painted (ctx q) @
            [Stroke [MoveTo x y, LineTo (clientX e) (clientY e)]
               \<lparr>strokeStyle = getProp (settings q) ''penColor'',
                lineWidth = getProp (settings q) ''penWidth'',
                lineCap = ''round'', lineJoin = ''round'',
                globalCompositeOperation = globalCompositeOperation (attrs (ctx q))\<rparr>]"
    by (simp add: draw_active)
  from a show "path (ctx (draw e q)) = [MoveTo (clientX e) (clientY e)]"
    by (simp add: draw_active)
qed

theorem segments_independent_witness:
  "path (ctx example_plugin) = [] \<and>
   isDrawing (startDrawing \<lparr>clientX = 0, clientY = 0\<rparr> example_plugin) \<and>
   path (ctx (startDrawing \<lparr>clientX = 0, clientY = 0\<rparr> example_plugin)) = [MoveTo 0 0] \<and>
   painted (ctx (stopDrawing (draw \<lparr>clientX = 100, clientY = 0\<rparr>
              (colorPicker_onChange ''#00ff00''
                 (draw \<lparr>clientX = 50, clientY = 50\<rparr>
                    (startDrawing \<lparr>clientX = 0, clientY = 0\<rparr> example_plugin)))))) =
     [Stroke [LineTo 0 0]
        \<lparr>strokeStyle = JString ''#ff0000'', lineWidth = JNumber 7,
         lineCap = ''round'', lineJoin = ''round'',
         globalCompositeOperation = ''source-over''\<rparr>,
      Stroke [MoveTo 0 0, LineTo 50 50]
        \<lparr>strokeStyle = JString ''#ff0000'', lineWidth = JNumber 7,
         lineCap = ''round'', lineJoin = ''round'',
         globalCompositeOperation = ''source-over''\<rparr>,
      Stroke [MoveTo 50 50, LineTo 100 0]
        \<lparr>strokeStyle = JString ''#00ff00'', lineWidth = JNumber 7,
         lineCap = ''round'', lineJoin = ''round'',
         globalCompositeOperation = ''source-over''\<rparr>] \<and>
   path (ctx (draw \<lparr>clientX = 50, clientY = 50\<rparr>
                (startDrawing \<lparr>clientX = 0, clientY = 0\<rparr> example_plugin))) = [MoveTo 50 50]"
proof -
  let ?q = "startDrawing \<lparr>clientX = 0, clientY = 0\<rparr> example_plugin"
  have a: "path (ctx example_plugin) = []"
    by (simp add: example_plugin_def new_plugin_def new_context_def)
  have b: "isDrawing ?q" "path (ctx ?q) = [MoveTo 0 0]"
    by (simp_all add: startDrawing_def draw_active a)
  from segments_independent [of example_plugin "''#00ff00''" ?q 0 0
         "\<lparr>clientX = 50, clientY = 50\<rparr>"] a b
  show ?thesis
    by (simp add: example_plugin_def new_plugin_def new_context_def getProp_def)
qed

section \<open>Toolbar\<close>

text \<open>
  Claim C8. The pen button sets the compositing mode to \<^verbatim>\<open>source-over\<close> and the eraser
  button sets it to \<^verbatim>\<open>destination-out\<close>, and neither touches any other attribute of the
  context. A segment drawn while the eraser is the current tool is stroked with
  \<^verbatim>\<open>settings.penWidth\<close> as its width, and \<open>draw\<close> does the same whatever
  \<^verbatim>\<open>settings.eraserSize\<close> holds.
\<close>

theorem eraser_keeps_pen_width:
  "attrs (ctx (penButton_onClick p)) =
     (attrs (ctx p))\<lparr>globalCompositeOperation := ''source-over''\<rparr>
   \<and> currentTool (penButton_onClick p) = Pen
   \<and> attrs (ctx (eraserButton_onClick p)) =
     (attrs (ctx p))\<lparr>globalCompositeOperation := ''destination-out''\<rparr>
   \<and> currentTool (eraserButton_onClick p) = Eraser
   \<and> (isDrawing q \<and> currentTool q = Eraser \<longrightarrow>
        painted (ctx (draw e q)) =
          painted (ctx q) @
            [Stroke (path (ctx q) @ [LineTo (clientX e) (clientY e)])
               \<lparr>strokeStyle = getProp (settings q) ''penColor'',
                lineWidth = getProp (settings q) ''penWidth'',
                lineCap = ''round'', lineJoin = ''round'',
                globalCompositeOperation = globalCompositeOperation (attrs (ctx q))\<rparr>])
   \<and> draw e (r\<lparr>settings := (settings r)(''eraserSize'' := v)\<rparr>) =
       (draw e r)\<lparr>settings := (settings r)(''eraserSize'' := v)\<rparr>"
proof (intro conjI impI)
  show "attrs (ctx (penButton_onClick p)) =
     (attrs (ctx p))\<lparr>globalCompositeOperation := ''source-over''\<rparr>"
    by (simp add: penButton_onClick_def Let_def)
  show "currentTool (penButton_onClick p) = Pen"
    by (simp add: penButton_onClick_def Let_def)
  show "attrs (ctx (eraserButton_onClick p)) =
     (attrs (ctx p))\<lparr>globalCompositeOperation := ''destination-out''\<rparr>"
    by (simp add: eraserButton_onClick_def Let_def)
  show "currentTool (eraserButton_onClick p) = Eraser"
    by (simp add: eraserButton_onClick_def Let_def)
  show "draw e (r\<lparr>settings := (settings r)(''eraserSize'' := v)\<rparr>) =
       (draw e r)\<lparr>settings := (settings r)(''eraserSize'' := v)\<rparr>"
    by (cases "isDrawing r") (simp_all add: draw_active draw_idle getProp_def)
next
  assume "isDrawing q \<and> currentTool q = Eraser"
  then show "painted (ctx (draw e q)) =
          painted (ctx q) @
            [Stroke (path (ctx q) @ [LineTo (clientX e) (clientY e)])
               \<lparr>strokeStyle = getProp (settings q) ''penColor'',
                lineWidth = getProp (settings q) ''penWidth'',
                lineCap = ''round'', lineJoin = ''round'',
                globalCompositeOperation = globalCompositeOperation (attrs (ctx q))\<rparr>]"
    by (simp add: draw_active)
qed

theorem eraser_keeps_pen_width_witness:
  "isDrawing (startDrawing \<lparr>clientX = 0, clientY = 0\<rparr> (eraserButton_onClick example_plugin)) \<and>
   currentTool (startDrawing \<lparr>clientX = 0, clientY = 0\<rparr> (eraserButton_onClick example_plugin))
     = Eraser \<and>
   getProp (settings example_plugin) ''eraserSize'' = JNumber 10 \<and>
   painted (ctx (draw \<lparr>clientX = 5, clientY = 5\<rparr>
     (startDrawing \<lparr>clientX = 0, clientY = 0\<rparr> (eraserButton_onClick example_plugin)))) =
     [Stroke [LineTo 0 0]
        \<lparr>strokeStyle = JString ''#ff0000'', lineWidth = JNumber 7,
         lineCap = ''round'', lineJoin = ''round'',
         globalCompositeOperation = ''destination-out''\<rparr>,
      Stroke [MoveTo 0 0, LineTo 5 5]
        \<lparr>strokeStyle = JString ''#ff0000'', lineWidth = JNumber 7,
         lineCap = ''round'', lineJoin = ''round'',
         globalCompositeOperation = ''destination-out''\<rparr>]"
proof -
  let ?q = "startDrawing \<lparr>clientX = 0, clientY = 0\<rparr> (eraserButton_onClick example_plugin)"
  have b: "isDrawing ?q" "currentTool ?q = Eraser"
    by (simp_all add: startDrawing_def draw_active eraserButton_onClick_def Let_def)
  from eraser_keeps_pen_width [of example_plugin ?q "\<lparr>clientX = 5, clientY = 5\<rparr>"] b
  show ?thesis
    by (simp add: startDrawing_def draw_active eraserButton_onClick_def Let_def
                  example_plugin_def new_plugin_def new_context_def getProp_def)
qed

lemma settingTab_change_persists:
  "calls (snd (fst (settingTab_penColor_onChange v h p))) =
     calls h @ [SaveData (Some ((settings p)(''penColor'' \<mapsto> v)))]"
  by (cases "faults h")
     (auto simp: settingTab_penColor_onChange_def saveSettings_def saveData_def Let_def
           split: option.splits)

text \<open>
  Claim C9. A change of the toolbar's colour picker and an input of its width slider
  leave the host as it is: no persistence call, no change of the store. Of the plugin
  they change the settings only, and of the settings only \<^verbatim>\<open>penColor\<close>, respectively
  \<^verbatim>\<open>penWidth\<close>.
\<close>

theorem toolbar_change_no_persistence:
  "dispatch toDataURL (ColorPickerChange v) (h, p) =
     (h, p\<lparr>settings := (settings p)(''penColor'' \<mapsto> JString v)\<rparr>)
   \<and> dispatch toDataURL (PenWidthSliderInput w) (h, p) =
     (h, p\<lparr>settings := (settings p)(''penWidth'' \<mapsto> parseInt w)\<rparr>)
   \<and> calls (fst (dispatch toDataURL (ColorPickerChange v) (h, p))) = calls h
   \<and> calls (fst (dispatch toDataURL (PenWidthSliderInput w) (h, p))) = calls h
   \<and> (k \<noteq> ''penColor'' \<longrightarrow>
        settings (snd (dispatch toDataURL (ColorPickerChange v) (h, p))) k = settings p k)
   \<and> (k \<noteq> ''penWidth'' \<longrightarrow>
        settings (snd (dispatch toDataURL (PenWidthSliderInput w) (h, p))) k = settings p k)"
  by (simp add: colorPicker_onChange_def penWidthSlider_onInput_def)

theorem toolbar_change_no_persistence_witness:
  "''eraserSize'' \<noteq> ''penColor'' \<and> ''eraserSize'' \<noteq> ''penWidth'' \<and>
   calls (fst (dispatch example_toDataURL (ColorPickerChange ''#00ff00'')
                 (example_host, example_plugin))) = [] \<and>
   settings (snd (dispatch example_toDataURL (ColorPickerChange ''#00ff00'')
                 (example_host, example_plugin))) ''penColor'' = Some (JString ''#00ff00'') \<and>
   settings (snd (dispatch example_toDataURL (ColorPickerChange ''#00ff00'')
                 (example_host, example_plugin))) ''eraserSize'' = Some (JNumber 10) \<and>
   settings (snd (dispatch example_toDataURL (PenWidthSliderInput ''12'')
                 (example_host, example_plugin))) ''penWidth'' = Some (JNumber 12) \<and>
   settings (snd (dispatch example_toDataURL (PenWidthSliderInput ''12'')
                 (example_host, example_plugin))) ''eraserSize'' = Some (JNumber 10)"
proof -
  have p: "parseInt ''12'' = JNumber 12"
    by (simp add: parseInt_def isWhiteSpace_def digitValue_def)
  from toolbar_change_no_persistence
         [of example_toDataURL "''#00ff00''" example_host example_plugin "''12''" "''eraserSize''"]
  show ?thesis
    by (simp add: p example_host_def example_plugin_def)
qed

section \<open>Loading and clearing the saved drawing\<close>

lemma loadDrawing_result:
  "fst (loadDrawing h p) =
     Inr (case faults h of
            Some e # _ \<Rightarrow> p
          | _ \<Rightarrow> (case store h of
                    None \<Rightarrow> p
                  | Some obj \<Rightarrow>
                      if truthy (getProp obj ''drawing'')
                      then p\<lparr>images := images p @ [getProp obj ''drawing'']\<rparr>
                      else p))"
  by (cases "faults h")
     (auto simp: loadDrawing_def try_catch_def loadData_def Let_def
           split: option.splits list.splits)

lemma loadDrawing_failure_logged:
  "faults h = Some e # fs \<Longrightarrow>
   loadDrawing h p =
     (Inr p, h\<lparr>calls := calls h @ [LoadData], faults := fs,
               console := console h @ [(''Failed to load drawing:'', e)]\<rparr>)"
  by (simp add: loadDrawing_def try_catch_def loadData_def console_error_def Let_def)

lemma loadDrawing_no_drawing:
  "store h = None \<or> (\<exists>obj. store h = Some obj \<and> ''drawing'' \<notin> dom obj) \<Longrightarrow>
   fst (loadDrawing h p) = Inr p"
  by (cases "faults h")
     (auto simp: loadDrawing_result getProp_def dom_def split: option.splits list.splits)

lemma loadDrawing_reloads:
  "resolving 1 h \<Longrightarrow> store h = Some obj \<Longrightarrow> obj ''drawing'' = Some (JString (c # cs)) \<Longrightarrow>
   painted (ctx (img_onload (case fst (loadDrawing h (p\<lparr>images := []\<rparr>)) of
                               Inr p' \<Rightarrow> p' | Inl e \<Rightarrow> p))) =
     painted (ctx p) @
       [ClearRect 0 0 (canvasWidth p) (canvasHeight p), DrawImage (JString (c # cs)) 0 0]"
  by (cases "faults h")
     (auto simp: loadDrawing_result getProp_def resolving_def img_onload_def
                 clearRect_def drawImage_def)

text \<open>
  Claim C6. When its \<open>saveData\<close> call resolves, the \<^verbatim>\<open>Clear Drawing\<close> button leaves
  \<^verbatim>\<open>null\<close> in the store. Over a store that is \<^verbatim>\<open>null\<close> or a record with no \<^verbatim>\<open>drawing\<close>
  field, \<open>loadDrawing\<close> returns the plugin as it was: no image is created, so no
  \<^verbatim>\<open>clearRect\<close> or \<^verbatim>\<open>drawImage\<close> follows, and an activation that completes has painted
  nothing on its new canvas.
\<close>

theorem cleared_drawing_not_reloaded:
  "(resolving 1 h \<longrightarrow> store (snd (clearDrawing_onClick h)) = None)
   \<and> (store h' = None \<or> (\<exists>obj. store h' = Some obj \<and> ''drawing'' \<notin> dom obj) \<longrightarrow>
        fst (loadDrawing h' p) = Inr p
        \<and> (case fst (initializeDrawingCanvas innerWidth innerHeight h' p) of
             Inr p' \<Rightarrow> painted (ctx p') = [] \<and> images p' = images p
           | Inl e \<Rightarrow> createToolbar p = Inl e))"
proof (intro conjI impI)
  assume "resolving 1 h"
  then have "resolving (Suc 0) h" by simp
  then show "store (snd (clearDrawing_onClick h)) = None"
    by (simp add: clearDrawing_onClick_def saveData_resolving Notice_def)
next
  assume a: "store h' = None \<or> (\<exists>obj. store h' = Some obj \<and> ''drawing'' \<notin> dom obj)"
  then show "fst (loadDrawing h' p) = Inr p" by (rule loadDrawing_no_drawing)
  let ?p1 = "p\<lparr>canvasWidth := innerWidth, canvasHeight := innerHeight, ctx := new_context\<rparr>"
  have l: "fst (loadDrawing h' ?p1) = Inr ?p1"
    using a by (rule loadDrawing_no_drawing)
  have t: "createToolbar ?p1 = createToolbar p"
    by (simp add: createToolbar_def)
  have "fst (initializeDrawingCanvas innerWidth innerHeight h' p) =
          (case createToolbar p of Inl e \<Rightarrow> Inl e | Inr u \<Rightarrow> Inr ?p1)"
    using l t
    by (cases "loadDrawing h' ?p1")
       (simp add: initializeDrawingCanvas_def Let_def split: sum.splits)
  then show "case fst (initializeDrawingCanvas innerWidth innerHeight h' p) of
             Inr p' \<Rightarrow> painted (ctx p') = [] \<and> images p' = images p
           | Inl e \<Rightarrow> createToolbar p = Inl e"
    by (simp add: new_context_def split: sum.splits)
qed

theorem cleared_drawing_not_reloaded_witness:
  "resolving 1 stored_drawing_host \<and>
   store (snd (clearDrawing_onClick stored_drawing_host)) = None \<and>
   fst (loadDrawing (snd (clearDrawing_onClick stored_drawing_host)) example_plugin) =
     Inr example_plugin \<and>
   (case fst (initializeDrawingCanvas 800 600 (snd (clearDrawing_onClick stored_drawing_host))
               example_plugin) of
      Inr p' \<Rightarrow> painted (ctx p') = [] \<and> images p' = []
    | Inl e \<Rightarrow> False)"
proof -
  let ?h' = "snd (clearDrawing_onClick stored_drawing_host)"
  have r: "resolving 1 stored_drawing_host"
    by (simp add: resolving_def stored_drawing_host_def example_host_def)
  have t: "createToolbar example_plugin = Inr ()"
    by (simp add: createToolbar_def example_plugin_def getProp_def)
  have i: "images example_plugin = []"
    by (simp add: example_plugin_def new_plugin_def)
  from cleared_drawing_not_reloaded [of stored_drawing_host stored_drawing_host] r
  have s: "store ?h' = None" by blast
  from cleared_drawing_not_reloaded [of stored_drawing_host ?h' example_plugin 800 600] s
  have "fst (loadDrawing ?h' example_plugin) = Inr example_plugin"
    and "case fst (initializeDrawingCanvas 800 600 ?h' example_plugin) of
             Inr p' \<Rightarrow> painted (ctx p') = [] \<and> images p' = images example_plugin
           | Inl e \<Rightarrow> createToolbar example_plugin = Inl e"
    by blast+
  with r s t i show ?thesis by (simp split: sum.splits)
qed

section \<open>Failures of the persistence calls\<close>

lemma loadDrawing_never_rejects: "\<exists>p'. fst (loadDrawing h p) = Inr p'"
  by (simp add: loadDrawing_result)

lemma saveDrawing_global_bound:
  "obsidianGlobal h \<Longrightarrow>
   fst (saveDrawing toDataURL now h p) = Inr () \<and>
   notices (snd (saveDrawing toDataURL now h p)) =
     notices h @ [if resolving 1 h then ''Drawing saved successfully!''
                  else ''Failed to save drawing'']"
  by (cases "faults h")
     (auto simp: saveDrawing_def try_catch_def saveData_def Notice_def console_error_def Let_def
                 resolving_def
           split: option.splits)

lemma saveDrawing_global_unbound:
  "\<not> obsidianGlobal h \<Longrightarrow>
   fst (saveDrawing toDataURL now h p) = Inl (ReferenceError ''Obsidian is not defined'') \<and>
   notices (snd (saveDrawing toDataURL now h p)) = notices h"
  by (cases "faults h")
     (auto simp: saveDrawing_def try_catch_def saveData_def Notice_def console_error_def Let_def
           split: option.splits)

text \<open>
  Claim C7. \<open>loadDrawing\<close> never rejects (\<open>loadDrawing_never_rejects\<close>) and logs the failure
  of its host call (\<open>loadDrawing_failure_logged\<close>). \<open>saveDrawing\<close> catches the failure of
  \<open>saveData\<close> and logs it, but its notifications are made through the identifier
  \<^verbatim>\<open>Obsidian\<close>, which the module never binds: with the identifier unbound, a save whose
  host call rejects logs that rejection and then rejects itself with the
  \<^verbatim>\<open>ReferenceError\<close> raised in the handler, and no notice is shown. The click listener
  has no handler for the rejected promise.
\<close>

theorem saveDrawing_notice_escapes:
  "fst (saveDrawing example_toDataURL 1000 failing_unbound_host example_plugin) =
     Inl (ReferenceError ''Obsidian is not defined'')
   \<and> notices (snd (saveDrawing example_toDataURL 1000 failing_unbound_host example_plugin)) = []
   \<and> console (snd (saveDrawing example_toDataURL 1000 failing_unbound_host example_plugin)) =
       [(''Failed to save drawing:'', Rejected ''write failed'')]
   \<and> unhandled (fst (dispatch example_toDataURL (SaveButtonClick 1000)
                        (failing_unbound_host, example_plugin))) =
       [ReferenceError ''Obsidian is not defined'']"
  by (simp add: saveDrawing_def try_catch_def saveData_def Notice_def console_error_def Let_def
                failing_unbound_host_def example_host_def settle_def)

end
